theory Spec2Isabelle
  imports Complex_Main
begin

section \<open>Tensors and the framework operations the code calls\<close>

text \<open>
  A tensor is its shape together with its elements in row-major order.  Elements are
  real numbers: the arithmetic of the source is read exactly, rounding, infinities and
  NaN of the floating-point formats are not part of the model.  Tensors are contiguous,
  so \<open>view\<close> depends on the number of elements only.
\<close>

record tensor =
  shape :: "nat list"
  elems :: "real list"

definition numel :: "nat list \<Rightarrow> nat" where
  "numel s = prod_list s"

definition wf_tensor :: "tensor \<Rightarrow> bool" where
  "wf_tensor t = (length (elems t) = numel (shape t))"

text \<open>The exceptions of the source, as values.  \<open>ModuleError\<close> stands for whatever an
  externally supplied module or library loss raises.\<close>

datatype error =
    ValueError
  | TypeError
  | KeyError string
  | IndexError
  | RuntimeError
  | AssertionError
  | NotImplementedError string
  | ModuleError

definition and_then :: "error + 'a \<Rightarrow> ('a \<Rightarrow> error + 'b) \<Rightarrow> error + 'b" where
  "and_then r f = (case r of Inl e \<Rightarrow> Inl e | Inr v \<Rightarrow> f v)"

text \<open>\<open>rows n k xs\<close> cuts the first \<open>n * k\<close> elements of \<open>xs\<close> into \<open>n\<close> consecutive
  blocks of \<open>k\<close> elements.\<close>

definition rows :: "nat \<Rightarrow> nat \<Rightarrow> 'a list \<Rightarrow> 'a list list" where
  "rows n k xs = map (\<lambda>i. take k (drop (i * k) xs)) [0..<n]"

subsection \<open>Broadcasting\<close>

text \<open>Shapes are aligned at their last dimension; two dimensions are compatible when
  they are equal or one of them is 1.  \<open>broadcast_dims\<close> works on the reversed shapes.\<close>

fun broadcast_dims :: "nat list \<Rightarrow> nat list \<Rightarrow> nat list option" where
  "broadcast_dims [] bs = Some bs"
| "broadcast_dims (a # as) [] = Some (a # as)"
| "broadcast_dims (a # as) (b # bs) =
     (if a = b \<or> b = 1 then map_option ((#) a) (broadcast_dims as bs)
      else if a = 1 then map_option ((#) b) (broadcast_dims as bs)
      else None)"

definition broadcast_shapes :: "nat list \<Rightarrow> nat list \<Rightarrow> nat list option" where
  "broadcast_shapes s1 s2 = map_option rev (broadcast_dims (rev s1) (rev s2))"

definition pad_shape :: "nat list \<Rightarrow> nat list \<Rightarrow> nat list" where
  "pad_shape s target = replicate (length target - length s) 1 @ s"

text \<open>\<open>expand s t xs\<close> repeats the data \<open>xs\<close> of shape \<open>s\<close> along every dimension in
  which \<open>s\<close> has 1 and the target \<open>t\<close> has not.\<close>

fun expand :: "nat list \<Rightarrow> nat list \<Rightarrow> real list \<Rightarrow> real list" where
  "expand (d # ds) (t # ts) xs =
     (let blocks = concat (map (expand ds ts) (rows d (prod_list ds) xs))
      in if d = t then blocks else concat (replicate t blocks))"
| "expand [] ts xs = xs"
| "expand (d # ds) [] xs = xs"

definition binop :: "(real \<Rightarrow> real \<Rightarrow> real) \<Rightarrow> tensor \<Rightarrow> tensor \<Rightarrow> error + tensor" where
  "binop f a b =
     (case broadcast_shapes (shape a) (shape b) of
        None \<Rightarrow> Inl RuntimeError
      | Some s \<Rightarrow>
          Inr \<lparr>shape = s,
               elems = map2 f (expand (pad_shape (shape a) s) s (elems a))
                              (expand (pad_shape (shape b) s) s (elems b))\<rparr>)"

definition tensor_add :: "tensor \<Rightarrow> tensor \<Rightarrow> error + tensor" where
  "tensor_add = binop (+)"

definition tensor_sub :: "tensor \<Rightarrow> tensor \<Rightarrow> error + tensor" where
  "tensor_sub = binop (-)"

definition tensor_mul :: "tensor \<Rightarrow> tensor \<Rightarrow> error + tensor" where
  "tensor_mul = binop (*)"

subsection \<open>Elementwise operations with a Python number\<close>

definition pointwise :: "(real \<Rightarrow> real) \<Rightarrow> tensor \<Rightarrow> tensor" where
  "pointwise f t = t\<lparr>elems := map f (elems t)\<rparr>"

definition scalar_mul :: "real \<Rightarrow> tensor \<Rightarrow> tensor" where
  "scalar_mul c = pointwise (\<lambda>v. c * v)"

definition scalar_add :: "real \<Rightarrow> tensor \<Rightarrow> tensor" where
  "scalar_add c = pointwise (\<lambda>v. c + v)"

definition torch_exp :: "tensor \<Rightarrow> tensor" where
  "torch_exp = pointwise exp"

definition tensor_pow :: "tensor \<Rightarrow> nat \<Rightarrow> tensor" where
  "tensor_pow t n = pointwise (\<lambda>v. v ^ n) t"

subsection \<open>Shape operations\<close>

text \<open>\<open>flatten(t, 1)\<close>: the start dimension 1 is out of range for a tensor of fewer than
  two dimensions; otherwise all dimensions but the first are merged.\<close>

definition flatten1 :: "tensor \<Rightarrow> error + tensor" where
  "flatten1 t =
     (case shape t of
        n # d # ds \<Rightarrow> Inr (t\<lparr>shape := [n, prod_list (d # ds)]\<rparr>)
      | _ \<Rightarrow> Inl IndexError)"

text \<open>\<open>t.mean(dim=1)\<close>: the average along the second dimension.  With \<open>r\<close> the number
  of elements behind that dimension, the element \<open>(i, j, k)\<close> sits at
  \<open>i * d * r + j * r + k\<close>.  (For \<open>d = 0\<close> the framework yields NaN; the theorems below
  are about \<open>d > 0\<close>.)\<close>

definition mean_dim1 :: "tensor \<Rightarrow> error + tensor" where
  "mean_dim1 t =
     (case shape t of
        n # d # ds \<Rightarrow>
          (let r = prod_list ds in
           Inr \<lparr>shape = n # ds,
                elems = concat (map (\<lambda>i. map (\<lambda>k.
                          (\<Sum>j\<leftarrow>[0..<d]. elems t ! (i * d * r + j * r + k)) / real d)
                          [0..<r]) [0..<n])\<rparr>)
      | _ \<Rightarrow> Inl IndexError)"

text \<open>\<open>t.view(s)\<close> with a \<open>torch.Size\<close> argument: the same elements under the new shape,
  a RuntimeError when the numbers of elements differ.\<close>

definition view :: "tensor \<Rightarrow> nat list \<Rightarrow> error + tensor" where
  "view t s = (if numel s = numel (shape t) then Inr (t\<lparr>shape := s\<rparr>) else Inl RuntimeError)"

subsection \<open>Random tensors\<close>

text \<open>The random generator is the sequence of values it is going to deliver; a draw of
  a tensor takes as many values as the tensor has elements.\<close>

type_synonym generator = "nat \<Rightarrow> real"

definition randn_shape :: "generator \<Rightarrow> nat list \<Rightarrow> tensor" where
  "randn_shape g s = \<lparr>shape = s, elems = map g [0..<numel s]\<rparr>"

definition randn :: "generator \<Rightarrow> int list \<Rightarrow> error + tensor" where
  "randn g s =
     (if list_ex (\<lambda>d. d < 0) s then Inl RuntimeError else Inr (randn_shape g (map nat s)))"

definition randn_like :: "generator \<Rightarrow> tensor \<Rightarrow> tensor" where
  "randn_like g t = randn_shape g (shape t)"

subsection \<open>Concatenation along the channel axis\<close>

text \<open>\<open>torch.cat([a, b], dim=1)\<close>.  A zero-dimensional tensor cannot be concatenated; a
  one-dimensional tensor of shape \<open>[0]\<close> is ignored (the framework's legacy rule); the
  dimension 1 must exist in the first tensor that is not ignored; the tensors that are
  not ignored must agree in every dimension but the second.\<close>

definition cat_skip :: "tensor \<Rightarrow> bool" where
  "cat_skip t = (shape t = [0])"

definition cat_dim1 :: "tensor \<Rightarrow> tensor \<Rightarrow> error + tensor" where
  "cat_dim1 a b =
     (if shape a = [] \<or> shape b = [] then Inl RuntimeError
      else if cat_skip a \<and> cat_skip b then Inr \<lparr>shape = [0], elems = []\<rparr>
      else if length (shape (if cat_skip a then b else a)) < 2 then Inl IndexError
      else if cat_skip a then Inr b
      else if cat_skip b then Inr a
      else if length (shape a) \<noteq> length (shape b) then Inl RuntimeError
      else if take 1 (shape a) \<noteq> take 1 (shape b) \<or> drop 2 (shape a) \<noteq> drop 2 (shape b)
        then Inl RuntimeError
      else
        (let n = shape a ! 0; ca = shape a ! 1; cb = shape b ! 1; r = prod_list (drop 2 (shape a))
         in Inr \<lparr>shape = n # (ca + cb) # drop 2 (shape a),
                 elems = concat (map2 (@) (rows n (ca * r) (elems a))
                                          (rows n (cb * r) (elems b)))\<rparr>))"

subsection \<open>Linear layers\<close>

text \<open>\<open>np.asarray(dims).prod()\<close>: the product of an empty array is the float 1.0; the
  product of an integer array is a 64-bit signed integer and wraps around.\<close>

datatype np_number = NpInt int | NpFloat real

definition wrap_int64 :: "int \<Rightarrow> int" where
  "wrap_int64 v = (v + 2 ^ 63) mod 2 ^ 64 - 2 ^ 63"

definition np_prod :: "nat list \<Rightarrow> np_number" where
  "np_prod ds = (if ds = [] then NpFloat 1 else NpInt (wrap_int64 (int (prod_list ds))))"

record linear =
  in_features :: nat
  out_features :: nat
  weight :: "real list list"
  bias :: "real list"

text \<open>\<open>nn.Linear(fin, fout)\<close> allocates a weight of \<open>fout\<close> rows of \<open>fin\<close> values and a bias
  of \<open>fout\<close> values and fills
  them from the generator.  A float size is a TypeError, a negative size a RuntimeError.\<close>

definition nn_Linear :: "generator \<Rightarrow> np_number \<Rightarrow> int \<Rightarrow> error + linear" where
  "nn_Linear g fin fout =
     (case fin of
        NpFloat _ \<Rightarrow> Inl TypeError
      | NpInt n \<Rightarrow>
          if n < 0 \<or> fout < 0 then Inl RuntimeError
          else Inr \<lparr>in_features = nat n, out_features = nat fout,
                    weight = rows (nat fout) (nat n) (map g [0..<nat fout * nat n]),
                    bias = map (\<lambda>k. g (nat fout * nat n + k)) [0..<nat fout]\<rparr>)"

definition linear_draws :: "linear \<Rightarrow> nat" where
  "linear_draws l = out_features l * in_features l + out_features l"

text \<open>Applying a linear layer: the last dimension of the input must be \<open>in_features\<close>;
  every row \<open>r\<close> of the input becomes the row \<open>r W\<^sup>T + b\<close>.\<close>

definition linear_apply :: "linear \<Rightarrow> tensor \<Rightarrow> error + tensor" where
  "linear_apply l t =
     (if shape t = [] \<or> last (shape t) \<noteq> in_features l then Inl RuntimeError
      else Inr \<lparr>shape = butlast (shape t) @ [out_features l],
                elems = concat (map (\<lambda>r. map2 (\<lambda>w b. sum_list (map2 (*) r w) + b)
                                            (weight l) (bias l))
                          (rows (prod_list (butlast (shape t))) (in_features l) (elems t)))\<rparr>)"

text \<open>An externally supplied module or library function returns a value or raises; what
  it raises is not told apart.\<close>

definition call :: "'a option \<Rightarrow> error + 'a" where
  "call r = (case r of None \<Rightarrow> Inl ModuleError | Some v \<Rightarrow> Inr v)"

section \<open>The variational autoencoder (vae.py)\<close>

record vae =
  decoder :: "tensor \<Rightarrow> tensor option"
  encoder :: "tensor \<Rightarrow> tensor option"
  z_size :: int
  encoder_output_size :: np_number
  cnn_dim :: int
  encoding_shape :: "nat list"
  z_logvar :: linear
  z_mu :: linear
  training :: bool

text \<open>\<open>__init__\<close>: the dry run of the encoder on \<open>x\<close> fixes the encoder output size and
  the encoding shape; the log-variance projection is created first, then the mean
  projection.  A new module is in training mode.\<close>

definition init ::
  "generator \<Rightarrow> tensor \<Rightarrow> int \<Rightarrow> (tensor \<Rightarrow> tensor option) \<Rightarrow> (tensor \<Rightarrow> tensor option) \<Rightarrow> int
     \<Rightarrow> error + vae" where
  "init g x cnn_dim0 encoder0 decoder0 z_size0 =
     and_then (call (encoder0 x)) (\<lambda>encoding.
       let eos = np_prod (drop 1 (shape encoding)) in
       and_then (nn_Linear g eos z_size0) (\<lambda>lv.
       and_then (nn_Linear (\<lambda>k. g (linear_draws lv + k)) eos z_size0) (\<lambda>mu.
         Inr \<lparr>decoder = decoder0, encoder = encoder0, z_size = z_size0,
              encoder_output_size = eos, cnn_dim = cnn_dim0 - 2,
              encoding_shape = shape encoding,
              z_logvar = lv, z_mu = mu, training = True\<rparr>)))"

definition encode :: "vae \<Rightarrow> tensor \<Rightarrow> error + (tensor \<times> tensor \<times> nat list)" where
  "encode m x =
     and_then (call (encoder m x)) (\<lambda>n.
       let encoded_shape = shape n in
       and_then (flatten1 n) (\<lambda>n.
       and_then (linear_apply (z_mu m) n) (\<lambda>mu.
       and_then (linear_apply (z_logvar m) n) (\<lambda>logvar.
         Inr (mu, logvar, encoded_shape)))))"

definition reparameterize :: "generator \<Rightarrow> bool \<Rightarrow> tensor \<Rightarrow> tensor \<Rightarrow> error + tensor" where
  "reparameterize g training0 zmu zlogvar =
     (if training0 then
        (let std = torch_exp (scalar_mul 0.5 zlogvar);
             eps = randn_like g std
         in and_then (tensor_mul eps std) (\<lambda>noise. tensor_add zmu noise))
      else Inr zmu)"

definition decode :: "vae \<Rightarrow> generator \<Rightarrow> tensor \<Rightarrow> tensor \<Rightarrow> nat list \<Rightarrow> error + tensor" where
  "decode m g mu logvar encoded_shape =
     and_then (reparameterize g (training m) mu logvar) (\<lambda>z.
     and_then (view z encoded_shape) (\<lambda>nd_z.
       call (decoder m nd_z)))"

text \<open>\<open>forward\<close> binds the result of \<open>encode\<close>, a tuple of three values, to the two names
  \<open>mu, logvar\<close>: Python raises ValueError (too many values to unpack).  The call
  \<open>self.decode(mu, logvar)\<close> behind it, which lacks the third argument of \<open>decode\<close>, is
  never reached.\<close>

definition forward :: "vae \<Rightarrow> tensor \<Rightarrow> error + (tensor \<times> tensor \<times> tensor)" where
  "forward m x =
     and_then (encode m x) (\<lambda>(mu, logvar, encoded_shape). Inl ValueError)"

definition sample :: "vae \<Rightarrow> generator \<Rightarrow> int \<Rightarrow> error + tensor" where
  "sample m g nb_samples =
     and_then (randn g [nb_samples, z_size m]) (\<lambda>random_z.
     and_then (view random_z (encoding_shape m)) (\<lambda>random_z.
       call (decoder m random_z)))"

text \<open>The training flag is managed from outside: \<open>model.eval()\<close> clears it.\<close>

definition model_eval :: "vae \<Rightarrow> vae" where
  "model_eval m = m\<lparr>training := False\<rparr>"

subsection \<open>The losses\<close>

text \<open>Modelled from the spec: the class \<open>LossOutput\<close> of \<open>flextrain.losses\<close> is not part
  of the sources at hand.  The spec calls it a structured multi-term loss with named
  components; the code reads and writes its dictionary \<open>losses\<close>.  Whatever else the
  object holds is the extension of the record.\<close>

record LossOutput =
  losses :: "string \<rightharpoonup> tensor"

text \<open>The reconstruction losses of \<open>torch.nn.functional\<close> with \<open>reduction='none'\<close> and
  the module \<open>PairwiseDistance(p=1, keepdim=True)\<close>, as the library supplies them.\<close>

record functional =
  binary_cross_entropy_with_logits :: "tensor \<Rightarrow> tensor \<Rightarrow> tensor option"
  binary_cross_entropy :: "tensor \<Rightarrow> tensor \<Rightarrow> tensor option"
  mse_loss :: "tensor \<Rightarrow> tensor \<Rightarrow> tensor option"
  pairwise_distance_l1 :: "tensor \<Rightarrow> tensor \<Rightarrow> tensor option"

definition times_scalar :: "tensor \<Rightarrow> real \<Rightarrow> tensor" where
  "times_scalar t c = pointwise (\<lambda>v. v * c) t"

text \<open>The two statements that both loss functions share word for word:
  \<^verbatim>\<open>kullback_leibler = -0.5 * (1 + logvar - mu.pow(2) - logvar.exp())\<close> and
  \<^verbatim>\<open>kullback_leibler = flatten(kullback_leibler, 1).mean(dim=1)\<close>.\<close>

definition kullback_leibler :: "tensor \<Rightarrow> tensor \<Rightarrow> error + tensor" where
  "kullback_leibler mu logvar =
     and_then (tensor_sub (scalar_add 1 logvar) (tensor_pow mu 2)) (\<lambda>a.
     and_then (tensor_sub a (torch_exp logvar)) (\<lambda>b.
     and_then (flatten1 (scalar_mul (- 0.5) b)) mean_dim1))"

definition loss_function ::
  "functional \<Rightarrow> (string \<rightharpoonup> tensor) \<Rightarrow> tensor \<Rightarrow> tensor \<times> tensor \<times> 'c \<Rightarrow> string \<Rightarrow> string
     \<Rightarrow> real \<Rightarrow> error + LossOutput" where
  "loss_function F batch model_output encoding x_input_name recon_loss_name
       kullback_leibler_weight =
     (case batch x_input_name of
        None \<Rightarrow> Inl (KeyError x_input_name)
      | Some x \<Rightarrow>
         (let recon_x = model_output in
          case encoding of (mu, logvar, _) \<Rightarrow>
            and_then
              (if recon_loss_name = ''BCEL''
                 then call (binary_cross_entropy_with_logits F recon_x x)
               else if recon_loss_name = ''BCE''
                 then call (binary_cross_entropy F recon_x x)
               else if recon_loss_name = ''MSE''
                 then call (mse_loss F recon_x x)
               else if recon_loss_name = ''L1''
                 then call (pairwise_distance_l1 F recon_x x)
               else Inl (NotImplementedError recon_loss_name)) (\<lambda>recon_loss.
            and_then (and_then (flatten1 recon_loss) mean_dim1) (\<lambda>recon_loss.
            and_then (kullback_leibler mu logvar) (\<lambda>kl.
              Inr \<lparr>losses = [recon_loss_name \<mapsto> recon_loss,
                              ''kl'' \<mapsto> times_scalar kl kullback_leibler_weight]\<rparr>)))))"

text \<open>What the supplied reconstruction loss returns is a \<open>LossOutput\<close> or some other
  object; the assertion lets only the former pass.  The returned object is the one the
  supplied function made, with its dictionary updated at the key \<open>kl\<close>.\<close>

datatype 'a returned = IsLossOutput "'a LossOutput_scheme" | OtherObject

definition loss_function_v2 ::
  "((string \<rightharpoonup> tensor) \<Rightarrow> tensor \<Rightarrow> 'a returned option) \<Rightarrow> (string \<rightharpoonup> tensor) \<Rightarrow> tensor
     \<Rightarrow> tensor \<times> tensor \<times> 'c \<Rightarrow> real \<Rightarrow> error + 'a LossOutput_scheme" where
  "loss_function_v2 recon_loss_fn batch model_output encoding kullback_leibler_weight =
     and_then (call (recon_loss_fn batch model_output)) (\<lambda>recon_loss.
       case recon_loss of
         OtherObject \<Rightarrow> Inl AssertionError
       | IsLossOutput recon_loss \<Rightarrow>
          (case encoding of (mu, logvar, _) \<Rightarrow>
             and_then (kullback_leibler mu logvar) (\<lambda>kl.
               Inr (recon_loss\<lparr>losses := (losses recon_loss)
                      (''kl'' \<mapsto> times_scalar kl kullback_leibler_weight)\<rparr>))))"

subsection \<open>Calling a method of the model\<close>

text \<open>The methods above read the attributes of the model; none of them assigns one.
  \<open>invoke\<close> makes the object after a call explicit: it returns the outcome of the call
  together with the model as the call leaves it.  (\<open>reparameterize\<close> and the loss functions
  are static methods and do not even receive the model.)\<close>

datatype method_call =
    Call_encode tensor
  | Call_decode tensor tensor "nat list"
  | Call_forward tensor
  | Call_sample int
  | Call_loss_function functional "string \<rightharpoonup> tensor" tensor "tensor \<times> tensor \<times> nat list"
      string string real
  | Call_loss_function_v2 "(string \<rightharpoonup> tensor) \<Rightarrow> tensor \<Rightarrow> unit returned option"
      "string \<rightharpoonup> tensor" tensor "tensor \<times> tensor \<times> nat list" real

datatype method_result =
    Encoded "tensor \<times> tensor \<times> nat list"
  | Decoded tensor
  | Forwarded "tensor \<times> tensor \<times> tensor"
  | Sampled tensor
  | Loss LossOutput

fun invoke :: "vae \<Rightarrow> generator \<Rightarrow> method_call \<Rightarrow> (error + method_result) \<times> vae" where
  "invoke self g (Call_encode x) = (map_sum id Encoded (encode self x), self)"
| "invoke self g (Call_decode mu logvar encoded_shape) =
     (map_sum id Decoded (decode self g mu logvar encoded_shape), self)"
| "invoke self g (Call_forward x) = (map_sum id Forwarded (forward self x), self)"
| "invoke self g (Call_sample nb_samples) = (map_sum id Sampled (sample self g nb_samples), self)"
| "invoke self g (Call_loss_function F batch model_output encoding x_input_name recon_loss_name w) =
     (map_sum id Loss
        (loss_function F batch model_output encoding x_input_name recon_loss_name w), self)"
| "invoke self g (Call_loss_function_v2 recon_loss_fn batch model_output encoding w) =
     (map_sum id Loss (loss_function_v2 recon_loss_fn batch model_output encoding w), self)"

section \<open>The conditioned diffusion wrapper (06_mnist_noising.py)\<close>

record conditioned =
  base_model :: "tensor \<Rightarrow> tensor \<Rightarrow> tensor option"
  image_conditioning_name :: string

text \<open>\<open>kwargs.get(name)\<close> is \<open>None\<close> for a missing key and for a key bound to \<open>None\<close>.\<close>

definition dict_get :: "(string \<rightharpoonup> 'v option) \<Rightarrow> string \<Rightarrow> 'v option" where
  "dict_get d k = (case d k of None \<Rightarrow> None | Some v \<Rightarrow> v)"

definition conditioned_forward ::
  "conditioned \<Rightarrow> tensor \<Rightarrow> tensor \<Rightarrow> (string \<rightharpoonup> tensor option) \<Rightarrow> error + tensor" where
  "conditioned_forward m x t kwargs =
     (case dict_get kwargs (image_conditioning_name m) of
        None \<Rightarrow> Inl AssertionError
      | Some image_conditioning \<Rightarrow>
          if drop 2 (shape image_conditioning) \<noteq> drop 2 (shape x) then Inl AssertionError
          else and_then (cat_dim1 x image_conditioning) (\<lambda>x_cond.
                 call (base_model m x_cond t)))"

section \<open>What the specification says, in its own words\<close>

text \<open>The KL term of one batch sample \<open>i\<close>: the mean, over the \<open>D\<close> elements of the sample
  (all dimensions but the first), of \<open>-0.5 * (1 + logvar - mean\<^sup>2 - exp logvar)\<close>.  The
  component \<open>kl\<close> of a loss is this term times the weight, one value per sample.\<close>

definition kl_mean_spec :: "tensor \<Rightarrow> tensor \<Rightarrow> nat \<Rightarrow> real" where
  "kl_mean_spec mu logvar i =
     (let D = numel (drop 1 (shape mu)) in
      (\<Sum>j<D. - 0.5 * (1 + elems logvar ! (i * D + j) - (elems mu ! (i * D + j))\<^sup>2
                           - exp (elems logvar ! (i * D + j)))) / real D)"

definition weighted_kl_spec :: "real \<Rightarrow> tensor \<Rightarrow> tensor \<Rightarrow> tensor" where
  "weighted_kl_spec w mu logvar =
     \<lparr>shape = take 1 (shape mu),
      elems = map (\<lambda>i. w * kl_mean_spec mu logvar i) [0..<shape mu ! 0]\<rparr>"


section \<open>Concrete instances\<close>

definition zeros :: "nat list \<Rightarrow> tensor" where
  "zeros s = \<lparr>shape = s, elems = replicate (numel s) 0\<rparr>"

definition ex_functional :: functional where
  "ex_functional =
     \<lparr>binary_cross_entropy_with_logits = (\<lambda>a b. None),
      binary_cross_entropy = (\<lambda>a b. None),
      mse_loss = (\<lambda>a b. if shape a = shape b
         then Some \<lparr>shape = shape a, elems = map2 (\<lambda>u v. (u - v)\<^sup>2) (elems a) (elems b)\<rparr>
         else None),
      pairwise_distance_l1 = (\<lambda>a b. None)\<rparr>"

definition ex_image :: tensor where
  "ex_image = \<lparr>shape = [2, 1, 2], elems = [3, 4, 5, 6]\<rparr>"

definition ex_recon_loss_fn :: "(string \<rightharpoonup> tensor) \<Rightarrow> tensor \<Rightarrow> unit returned option" where
  "ex_recon_loss_fn batch out =
     Some (IsLossOutput \<lparr>losses = [''l1'' \<mapsto> out, ''kl'' \<mapsto> out]\<rparr>)"

text \<open>A small autoencoder: the encoder keeps every other element of the last dimension
  (rounding up), the decoder repeats every element of the last dimension twice.  On an
  input of odd width the decoder's output is one element wider than the input.\<close>

fun every_other :: "'a list \<Rightarrow> 'a list" where
  "every_other (u # v # xs) = u # every_other xs"
| "every_other xs = xs"

definition ex_encoder :: "tensor \<Rightarrow> tensor option" where
  "ex_encoder t =
     (if shape t = [] then None
      else Some \<lparr>shape = butlast (shape t) @ [(last (shape t) + 1) div 2],
                 elems = concat (map every_other
                   (rows (prod_list (butlast (shape t))) (last (shape t)) (elems t)))\<rparr>)"

definition ex_decoder :: "tensor \<Rightarrow> tensor option" where
  "ex_decoder t =
     (if shape t = [] then None
      else Some \<lparr>shape = butlast (shape t) @ [2 * last (shape t)],
                 elems = concat (map (\<lambda>v. [v, v]) (elems t))\<rparr>)"

definition ex_x :: tensor where
  "ex_x = \<lparr>shape = [1, 1, 3], elems = [1, 2, 3]\<rparr>"

definition ex_generator :: generator where
  "ex_generator k = real k"

definition ex_model :: vae where
  "ex_model =
     \<lparr>decoder = ex_decoder, encoder = ex_encoder, z_size = 2,
      encoder_output_size = NpInt 2, cnn_dim = 1, encoding_shape = [1, 1, 2],
      z_logvar = \<lparr>in_features = 2, out_features = 2, weight = [[0, 1], [2, 3]], bias = [4, 5]\<rparr>,
      z_mu = \<lparr>in_features = 2, out_features = 2, weight = [[6, 7], [8, 9]], bias = [10, 11]\<rparr>,
      training = True\<rparr>"

definition ex_mu :: tensor where
  "ex_mu = \<lparr>shape = [2, 2], elems = [3, 4, 5, 6]\<rparr>"

text \<open>A conditioned wrapper whose base network returns its input, a noisy batch of two
  images of one channel and width 2, a conditioning image of another width, and a
  timestep tensor.\<close>

definition ex_conditioned :: conditioned where
  "ex_conditioned = \<lparr>base_model = (\<lambda>x_cond t. Some x_cond), image_conditioning_name = ''images''\<rparr>"

definition ex_noisy :: tensor where
  "ex_noisy = \<lparr>shape = [2, 1, 2], elems = [7, 8, 9, 10]\<rparr>"

definition ex_wide :: tensor where
  "ex_wide = \<lparr>shape = [2, 1, 3], elems = [3, 4, 5, 6, 7, 8]\<rparr>"

definition ex_t :: tensor where
  "ex_t = \<lparr>shape = [2], elems = [0, 5]\<rparr>"

section \<open>Properties of the tensor operations\<close>

lemma and_then_Inr [simp]: "and_then (Inr v) f = f v"
  by (simp add: and_then_def)

lemma and_then_Inl [simp]: "and_then (Inl e) f = Inl e"
  by (simp add: and_then_def)

lemma broadcast_dims_same: "broadcast_dims s s = Some s"
  by (induction s) auto

lemma broadcast_shapes_same: "broadcast_shapes s s = Some s"
  by (simp add: broadcast_shapes_def broadcast_dims_same)

lemma pad_shape_same: "pad_shape s s = s"
  by (simp add: pad_shape_def)

lemma length_rows [simp]: "length (rows n k xs) = n"
  by (simp add: rows_def)

lemma rows_Suc: "rows (Suc n) k xs = take k xs # rows n k (drop k xs)"
proof -
  have "[0..<Suc n] = 0 # map Suc [0..<n]"
    by (simp add: upt_conv_Cons map_Suc_upt del: upt_Suc)
  then show ?thesis
    by (simp add: rows_def comp_def add.commute del: upt_Suc)
qed

lemma concat_rows: "length xs = n * k \<Longrightarrow> concat (rows n k xs) = xs"
proof (induction n arbitrary: xs)
  case 0
  then show ?case by (simp add: rows_def)
next
  case (Suc n)
  then show ?case by (simp add: rows_Suc)
qed

lemma rows_lengths: "length xs = n * k \<Longrightarrow> r \<in> set (rows n k xs) \<Longrightarrow> length r = k"
proof (induction n arbitrary: xs)
  case 0
  then show ?case by (simp add: rows_def)
next
  case (Suc n)
  from Suc.prems(2) have "r = take k xs \<or> r \<in> set (rows n k (drop k xs))"
    by (simp add: rows_Suc)
  then show ?case
  proof
    assume "r = take k xs"
    then show ?thesis using Suc.prems(1) by simp
  next
    assume "r \<in> set (rows n k (drop k xs))"
    moreover have "length (drop k xs) = n * k" using Suc.prems(1) by simp
    ultimately show ?thesis by (rule Suc.IH [rotated])
  qed
qed

lemma expand_same: "length xs = prod_list s \<Longrightarrow> expand s s xs = xs"
proof (induction s arbitrary: xs)
  case Nil
  then show ?case by simp
next
  case (Cons d ds)
  have len: "length xs = d * prod_list ds"
    using Cons.prems by simp
  have "map (expand ds ds) (rows d (prod_list ds) xs) = rows d (prod_list ds) xs"
    by (rule map_idI) (rule Cons.IH, rule rows_lengths [OF len])
  then have "expand (d # ds) (d # ds) xs = concat (rows d (prod_list ds) xs)"
    by (simp add: Let_def)
  also have "\<dots> = xs"
    by (rule concat_rows [OF len])
  finally show ?case .
qed

lemma binop_same_shape:
  assumes "shape b = shape a" "wf_tensor a" "wf_tensor b"
  shows "binop f a b = Inr \<lparr>shape = shape a, elems = map2 f (elems a) (elems b)\<rparr>"
  using assms
  by (simp add: binop_def broadcast_shapes_same pad_shape_same expand_same wf_tensor_def numel_def)

lemma pointwise_simps [simp]:
  "shape (pointwise f t) = shape t" "elems (pointwise f t) = map f (elems t)"
  by (simp_all add: pointwise_def)

lemma wf_pointwise [simp]: "wf_tensor (pointwise f t) = wf_tensor t"
  by (simp add: wf_tensor_def)

lemma randn_like_simps [simp]:
  "shape (randn_like g t) = shape t"
  "elems (randn_like g t) = map g [0..<numel (shape t)]"
  "wf_tensor (randn_like g t)"
  by (simp_all add: randn_like_def randn_shape_def wf_tensor_def)

lemma reparameterize_training:
  assumes "shape zlogvar = shape zmu" "wf_tensor zmu" "wf_tensor zlogvar"
  shows "reparameterize g True zmu zlogvar =
     Inr \<lparr>shape = shape zmu,
          elems = map (\<lambda>i. elems zmu ! i + g i * exp (0.5 * elems zlogvar ! i))
                    [0..<numel (shape zmu)]\<rparr>"
proof -
  let ?std = "torch_exp (scalar_mul 0.5 zlogvar)"
  let ?n = "numel (shape zmu)"
  have std: "shape ?std = shape zmu" "wf_tensor ?std"
    using assms by (simp_all add: torch_exp_def scalar_mul_def)
  have mul: "tensor_mul (randn_like g ?std) ?std =
      Inr \<lparr>shape = shape zmu, elems = map2 (*) (map g [0..<?n]) (elems ?std)\<rparr>"
    unfolding tensor_mul_def using std by (subst binop_same_shape) simp_all
  have len: "length (elems zmu) = ?n" "length (elems zlogvar) = ?n"
    using assms by (simp_all add: wf_tensor_def)
  let ?noise = "\<lparr>shape = shape zmu, elems = map2 (*) (map g [0..<?n]) (elems ?std)\<rparr>"
  have eq: "map2 (+) (elems zmu) (elems ?noise) =
      map (\<lambda>i. elems zmu ! i + g i * exp (0.5 * elems zlogvar ! i)) [0..<?n]"
    using len by (intro nth_equalityI) (simp_all add: torch_exp_def scalar_mul_def)
  have wf: "wf_tensor ?noise"
    using len by (simp add: wf_tensor_def torch_exp_def scalar_mul_def)
  have "reparameterize g True zmu zlogvar =
      and_then (tensor_mul (randn_like g ?std) ?std) (\<lambda>noise. tensor_add zmu noise)"
    by (simp only: reparameterize_def Let_def if_True)
  also have "\<dots> = tensor_add zmu ?noise"
    by (simp only: mul and_then_Inr)
  also have "\<dots> = Inr \<lparr>shape = shape zmu, elems = map2 (+) (elems zmu) (elems ?noise)\<rparr>"
    unfolding tensor_add_def using assms(2) wf by (subst binop_same_shape) simp_all
  finally show ?thesis
    by (simp only: eq)
qed

lemma index_in_block: "i < n \<Longrightarrow> j < (d::nat) \<Longrightarrow> i * d + j < n * d"
proof -
  assume a: "i < n" "j < d"
  have "i * d + j < i * d + d" using a by simp
  also have "\<dots> = Suc i * d" by simp
  also have "\<dots> \<le> n * d" by (rule mult_le_mono1) (use a in simp)
  finally show ?thesis .
qed

lemma mean_dim1_matrix:
  "mean_dim1 \<lparr>shape = [n, D], elems = xs\<rparr> =
     Inr \<lparr>shape = [n],
          elems = map (\<lambda>i. (\<Sum>j\<leftarrow>[0..<D]. xs ! (i * D + j)) / real D) [0..<n]\<rparr>"
  by (simp add: mean_dim1_def)

lemma kullback_leibler_rows:
  assumes sh: "shape logvar = shape mu" "shape mu = n # d # ds"
    and wf: "wf_tensor mu" "wf_tensor logvar"
  shows "kullback_leibler mu logvar =
     Inr \<lparr>shape = [n], elems = map (kl_mean_spec mu logvar) [0..<n]\<rparr>"
proof -
  define D where "D = prod_list (d # ds)"
  let ?a = "\<lparr>shape = shape mu,
      elems = map2 (-) (map (\<lambda>v. 1 + v) (elems logvar)) (map (\<lambda>v. v ^ 2) (elems mu))\<rparr>"
  let ?b = "\<lparr>shape = shape mu, elems = map2 (-) (elems ?a) (map exp (elems logvar))\<rparr>"
  let ?c = "map (\<lambda>v. - 0.5 * v) (elems ?b)"
  have D: "numel (drop 1 (shape mu)) = D"
    using sh by (simp add: numel_def D_def)
  have len: "length (elems mu) = n * D" "length (elems logvar) = n * D"
    using sh wf by (simp_all add: wf_tensor_def numel_def D_def)
  have a: "tensor_sub (scalar_add 1 logvar) (tensor_pow mu 2) = Inr ?a"
    unfolding tensor_sub_def scalar_add_def tensor_pow_def
    using sh wf by (subst binop_same_shape) simp_all
  have wfa: "wf_tensor ?a"
    using len sh by (simp add: wf_tensor_def numel_def D_def)
  have b: "tensor_sub ?a (torch_exp logvar) = Inr ?b"
    unfolding tensor_sub_def torch_exp_def
    using sh wf wfa by (subst binop_same_shape) simp_all
  have fl: "flatten1 (scalar_mul (- 0.5) ?b) = Inr \<lparr>shape = [n, D], elems = ?c\<rparr>"
    using sh by (simp add: flatten1_def scalar_mul_def pointwise_def D_def)
  have nth: "?c ! (i * D + j) =
      - 0.5 * (1 + elems logvar ! (i * D + j) - (elems mu ! (i * D + j))\<^sup>2
                - exp (elems logvar ! (i * D + j)))"
    if "i < n" "j < D" for i j
  proof -
    have "i * D + j < n * D" using that by (rule index_in_block)
    then show ?thesis using len by simp
  qed
  have row: "(\<Sum>j\<leftarrow>[0..<D]. ?c ! (i * D + j)) / real D = kl_mean_spec mu logvar i"
    if "i < n" for i
  proof -
    have "(\<Sum>j\<leftarrow>[0..<D]. ?c ! (i * D + j)) = (\<Sum>j<D. ?c ! (i * D + j))"
      by (simp only: interv_sum_list_conv_sum_set_nat set_upt atLeast0LessThan)
    also have "\<dots> = (\<Sum>j<D. - 0.5 * (1 + elems logvar ! (i * D + j)
        - (elems mu ! (i * D + j))\<^sup>2 - exp (elems logvar ! (i * D + j))))"
      using that by (intro sum.cong refl nth) simp_all
    finally show ?thesis
      by (simp only: kl_mean_spec_def D Let_def)
  qed
  have "map (\<lambda>i. (\<Sum>j\<leftarrow>[0..<D]. ?c ! (i * D + j)) / real D) [0..<n] =
      map (kl_mean_spec mu logvar) [0..<n]"
    by (rule map_cong [OF refl]) (simp only: row set_upt atLeastLessThan_iff)
  then have "mean_dim1 \<lparr>shape = [n, D], elems = ?c\<rparr> =
      Inr \<lparr>shape = [n], elems = map (kl_mean_spec mu logvar) [0..<n]\<rparr>"
    by (simp only: mean_dim1_matrix)
  then show ?thesis
    by (simp only: kullback_leibler_def a b fl and_then_Inr)
qed

lemma kullback_leibler_rank:
  assumes "kullback_leibler mu logvar = Inr kl" "shape logvar = shape mu"
  shows "\<exists>n d ds. shape mu = n # d # ds"
proof -
  obtain a where a: "tensor_sub (scalar_add 1 logvar) (tensor_pow mu 2) = Inr a"
    using assms(1) by (cases "tensor_sub (scalar_add 1 logvar) (tensor_pow mu 2)")
      (simp_all add: kullback_leibler_def)
  then have sa: "shape a = shape mu"
    using assms(2)
    by (auto simp add: tensor_sub_def binop_def broadcast_shapes_same scalar_add_def tensor_pow_def)
  obtain b where b: "tensor_sub a (torch_exp logvar) = Inr b"
    using assms(1) a by (cases "tensor_sub a (torch_exp logvar)")
      (simp_all add: kullback_leibler_def)
  then have sb: "shape b = shape mu"
    using assms(2) sa
    by (auto simp add: tensor_sub_def binop_def broadcast_shapes_same torch_exp_def)
  have "\<exists>f. flatten1 (scalar_mul (- 0.5) b) = Inr f"
    using assms(1) a b by (cases "flatten1 (scalar_mul (- 0.5) b)")
      (simp_all add: kullback_leibler_def)
  then show ?thesis
    using sb by (auto simp add: flatten1_def scalar_mul_def split: list.splits)
qed

lemma weighted_kl_spec_eq:
  assumes "shape logvar = shape mu" "wf_tensor mu" "wf_tensor logvar"
    and "kullback_leibler mu logvar = Inr kl"
  shows "times_scalar kl w = weighted_kl_spec w mu logvar"
proof -
  obtain n d ds where sh: "shape mu = n # d # ds"
    using kullback_leibler_rank [OF assms(4) assms(1)] by blast
  have "kl = \<lparr>shape = [n], elems = map (kl_mean_spec mu logvar) [0..<n]\<rparr>"
    using kullback_leibler_rows [OF assms(1) sh assms(2) assms(3)] assms(4) by simp
  then show ?thesis
    using sh by (simp add: times_scalar_def pointwise_def weighted_kl_spec_def mult.commute)
qed

lemma loss_function_kl:
  assumes "loss_function F batch model_output (mu, logvar, c) x_input_name recon_loss_name w = Inr lo"
  shows "\<exists>kl. kullback_leibler mu logvar = Inr kl \<and> losses lo ''kl'' = Some (times_scalar kl w)"
  using assms unfolding loss_function_def
  by (auto simp add: and_then_def Let_def split: option.splits sum.splits if_splits)

lemma loss_function_v2_kl:
  assumes "loss_function_v2 recon_loss_fn batch model_output (mu, logvar, c) w = Inr lo"
  shows "\<exists>kl. kullback_leibler mu logvar = Inr kl \<and> losses lo ''kl'' = Some (times_scalar kl w)"
  using assms unfolding loss_function_v2_def
  by (auto simp add: and_then_def call_def split: option.splits sum.splits returned.splits)

lemma kl_mean_spec_zero:
  assumes "\<forall>v\<in>set (elems mu). v = 0" "\<forall>v\<in>set (elems logvar). v = 0"
    and "wf_tensor mu" "wf_tensor logvar" "shape logvar = shape mu" "shape mu = n # d # ds" "i < n"
  shows "kl_mean_spec mu logvar i = 0"
proof -
  define D where "D = numel (drop 1 (shape mu))"
  have len: "length (elems mu) = n * D" "length (elems logvar) = n * D"
    using assms by (simp_all add: wf_tensor_def numel_def D_def)
  have "elems mu ! (i * D + j) = 0 \<and> elems logvar ! (i * D + j) = 0" if "j < D" for j
  proof -
    have "i * D + j < n * D" using \<open>i < n\<close> that by (rule index_in_block)
    then show ?thesis using assms(1,2) len by (simp add: all_set_conv_all_nth)
  qed
  then have z: "- 0.5 * (1 + elems logvar ! (i * D + j) - (elems mu ! (i * D + j))\<^sup>2
      - exp (elems logvar ! (i * D + j))) = 0" if "j < D" for j
    using that by simp
  have "kl_mean_spec mu logvar i =
      (\<Sum>j<D. - 0.5 * (1 + elems logvar ! (i * D + j) - (elems mu ! (i * D + j))\<^sup>2
        - exp (elems logvar ! (i * D + j)))) / real D"
    by (simp only: kl_mean_spec_def Let_def D_def)
  also have "\<dots> = (\<Sum>j<D. 0) / real D"
    by (intro arg_cong2 [where f = "(/)"] sum.cong refl z) simp
  finally show ?thesis by simp
qed

lemma zeros_simps [simp]:
  "shape (zeros s) = s" "elems (zeros s) = replicate (numel s) 0" "wf_tensor (zeros s)"
  by (simp_all add: zeros_def wf_tensor_def)

subsection \<open>The example model, evaluated\<close>

lemma ex_encoder_x: "ex_encoder ex_x = Some \<lparr>shape = [1, 1, 2], elems = [1, 3]\<rparr>"
  by code_simp

lemma ex_linear_logvar:
  "nn_Linear ex_generator (NpInt 2) 2 =
     Inr \<lparr>in_features = 2, out_features = 2, weight = [[0, 1], [2, 3]], bias = [4, 5]\<rparr>"
  by code_simp

lemma ex_linear_mu:
  "nn_Linear (\<lambda>k. ex_generator (6 + k)) (NpInt 2) 2 =
     Inr \<lparr>in_features = 2, out_features = 2, weight = [[6, 7], [8, 9]], bias = [10, 11]\<rparr>"
  by code_simp

lemma ex_np_prod: "np_prod [1, 2] = NpInt 2"
  by code_simp

lemma init_ex_model: "init ex_generator ex_x 3 ex_encoder ex_decoder 2 = Inr ex_model"
  by (simp add: init_def ex_encoder_x call_def ex_np_prod [simplified] ex_linear_logvar
      ex_linear_mu linear_draws_def ex_model_def)

lemma encode_ex_model:
  "encode (model_eval ex_model) ex_x =
     Inr (\<lparr>shape = [1, 2], elems = [37, 46]\<rparr>, \<lparr>shape = [1, 2], elems = [7, 16]\<rparr>, [1, 1, 2])"
  by code_simp

lemma ex_reparameterize_eval: "reparameterize g (training (model_eval ex_model)) \<lparr>shape = [1, 2], elems = [37, 46]\<rparr>
     \<lparr>shape = [1, 2], elems = [7, 16]\<rparr> = Inr \<lparr>shape = [1, 2], elems = [37, 46]\<rparr>"
  by (simp add: model_eval_def ex_model_def reparameterize_def)

lemma ex_view: "view \<lparr>shape = [1, 2], elems = [37, 46]\<rparr> [1, 1, 2] = Inr \<lparr>shape = [1, 1, 2], elems = [37, 46]\<rparr>"
  by (simp add: view_def numel_def)

lemma ex_decoder_eval: "decoder (model_eval ex_model) \<lparr>shape = [1, 1, 2], elems = [37, 46]\<rparr> = Some \<lparr>shape = [1, 1, 4], elems = [37, 37, 46, 46]\<rparr>"
  by (simp add: model_eval_def ex_model_def ex_decoder_def)

lemma decode_ex_model:
  "decode (model_eval ex_model) g \<lparr>shape = [1, 2], elems = [37, 46]\<rparr>
     \<lparr>shape = [1, 2], elems = [7, 16]\<rparr> [1, 1, 2] =
   Inr \<lparr>shape = [1, 1, 4], elems = [37, 37, 46, 46]\<rparr>"
  by (simp only: decode_def ex_reparameterize_eval ex_view ex_decoder_eval and_then_Inr call_def option.case)

lemma shape_ex_x: "shape ex_x = [1, 1, 3]"
  by (simp add: ex_x_def)

lemma kullback_leibler_zeros:
  "kullback_leibler (zeros [2, 2]) (zeros [2, 2]) = Inr \<lparr>shape = [2], elems = [0, 0]\<rparr>"
proof -
  let ?z = "zeros [2, 2]"
  have zero: "\<forall>v\<in>set (elems ?z). v = 0"
    by simp
  have "kullback_leibler ?z ?z = Inr \<lparr>shape = [2], elems = map (kl_mean_spec ?z ?z) [0..<2]\<rparr>"
    by (rule kullback_leibler_rows [where d = 2 and ds = "[]"]) simp_all
  then show ?thesis
    using kl_mean_spec_zero [OF zero zero, of 2 2 "[]" 0]
      kl_mean_spec_zero [OF zero zero, of 2 2 "[]" 1]
    by (simp add: upt_conv_Cons)
qed

subsection \<open>Which errors an operation can raise\<close>


lemma flatten1_error: "flatten1 t = Inl e \<Longrightarrow> e = IndexError"
  by (simp add: flatten1_def split: list.splits)

lemma mean_dim1_error: "mean_dim1 t = Inl e \<Longrightarrow> e = IndexError"
  by (simp add: mean_dim1_def Let_def split: list.splits)

lemma and_then_error:
  "and_then r f = Inl e \<Longrightarrow> r = Inl e \<or> (\<exists>v. r = Inr v \<and> f v = Inl e)"
  by (cases r) simp_all

lemma reduce_error: "and_then (flatten1 t) mean_dim1 = Inl e \<Longrightarrow> e = IndexError"
  by (auto dest!: and_then_error dest: flatten1_error mean_dim1_error)






lemma and_then_result:
  "and_then r f = Inr v \<Longrightarrow> \<exists>u. r = Inr u \<and> f u = Inr v"
  by (cases r) simp_all

lemma view_shape: "view t s = Inr v \<Longrightarrow> shape v = s"
  by (auto simp add: view_def split: if_splits)

lemma call_result: "call r = Inr v \<Longrightarrow> r = Some v"
  by (simp add: call_def split: option.splits)

lemma sample_decodes_the_stored_shape:
  assumes "sample m g nb_samples = Inr t"
  shows "\<exists>z. shape z = encoding_shape m \<and> decoder m z = Some t"
proof -
  from assms obtain random_z z where "view random_z (encoding_shape m) = Inr z"
      "call (decoder m z) = Inr t"
    unfolding sample_def by (blast dest: and_then_result)
  then show ?thesis
    by (blast dest: view_shape call_result)
qed

lemma decode_returns_decoder_output:
  assumes "decode m g mu logvar encoded_shape = Inr recon"
  shows "\<exists>nd_z. shape nd_z = encoded_shape \<and> decoder m nd_z = Some recon"
proof -
  from assms obtain z nd_z where "view z encoded_shape = Inr nd_z"
      "call (decoder m nd_z) = Inr recon"
    unfolding decode_def by (blast dest: and_then_result)
  then show ?thesis
    by (blast dest: view_shape call_result)
qed

lemma forward_never_returns: "forward m x \<noteq> Inr r"
  by (cases "encode m x") (auto simp add: forward_def)

subsection \<open>Construction\<close>

lemma wrap_int64_small: "0 \<le> v \<Longrightarrow> v < 2 ^ 63 \<Longrightarrow> wrap_int64 v = v"
  by (simp add: wrap_int64_def)

lemma invoke_self: "snd (invoke m g c) = m"
  by (cases c) simp_all

section \<open>The claims\<close>

text \<open>C1.  The claim is that \<open>forward\<close> returns reconstruction, mean and log-variance and
  does not fail.  The code never returns: built on the example input and called on it,
  \<open>forward\<close> raises ValueError where it unpacks the three values of \<open>encode\<close> into two
  names (\<open>forward_never_returns\<close> says so for every model and input).\<close>

theorem forward_raises_on_example:
  "and_then (init ex_generator ex_x 3 ex_encoder ex_decoder 2) (\<lambda>m. forward m ex_x)
     = Inl ValueError"
  by code_simp

text \<open>C2.  The claim is that \<open>sample(nb_samples)\<close> returns a batch of \<open>nb_samples\<close> elements
  for every positive \<open>nb_samples\<close>.  The code reshapes the draw to the shape stored at
  construction, batch size of the dry run included: on the example model, built from a
  batch of one, \<open>sample(2)\<close> raises RuntimeError in \<open>view\<close>
  (\<open>sample_decodes_the_stored_shape\<close>: whenever \<open>sample\<close> returns, the decoder was given a
  tensor of the stored shape).\<close>

theorem sample_two_raises_on_example:
  "and_then (init ex_generator ex_x 3 ex_encoder ex_decoder 2) (\<lambda>m. sample m ex_generator 2)
     = Inl RuntimeError"
  by code_simp

text \<open>C3.  With equal shapes of mean and log-variance, training-mode \<open>reparameterize\<close>
  returns \<open>z_mu + eps * exp (0.5 * z_logvar)\<close>, elementwise, where \<open>eps\<close> is the tensor drawn from the
  generator and has the shape of \<open>z_mu\<close>; evaluation-mode \<open>reparameterize\<close> returns the
  mean itself, whatever the generator holds, so two evaluation-mode calls agree.\<close>

theorem reparameterize_training_and_evaluation:
  assumes "shape zlogvar = shape zmu" "wf_tensor zmu" "wf_tensor zlogvar"
  shows "(let eps = randn_like g zmu in
            shape eps = shape zmu \<and>
            reparameterize g True zmu zlogvar =
              Inr \<lparr>shape = shape zmu,
                   elems = map (\<lambda>i. elems zmu ! i + elems eps ! i * exp (0.5 * elems zlogvar ! i))
                             [0..<numel (shape zmu)]\<rparr>)
       \<and> reparameterize g False zmu zlogvar = Inr zmu
       \<and> reparameterize g' False zmu zlogvar = reparameterize g False zmu zlogvar"
proof -
  have "map (\<lambda>i. elems zmu ! i + map g [0..<numel (shape zmu)] ! i * exp (0.5 * elems zlogvar ! i))
          [0..<numel (shape zmu)] =
        map (\<lambda>i. elems zmu ! i + g i * exp (0.5 * elems zlogvar ! i)) [0..<numel (shape zmu)]"
    by (rule map_cong [OF refl]) simp
  then show ?thesis
    using reparameterize_training [OF assms, of g]
    by (simp add: Let_def reparameterize_def)
qed

theorem reparameterize_training_and_evaluation_witness:
  "shape \<lparr>shape = [1, 2], elems = [0, 0]\<rparr> = shape \<lparr>shape = [1, 2], elems = [5, 7]\<rparr>
   \<and> wf_tensor \<lparr>shape = [1, 2], elems = [5, 7]\<rparr>
   \<and> wf_tensor \<lparr>shape = [1, 2], elems = [0, 0]\<rparr>
   \<and> reparameterize (\<lambda>k. real k + 1) True
         \<lparr>shape = [1, 2], elems = [5, 7]\<rparr> \<lparr>shape = [1, 2], elems = [0, 0]\<rparr>
       = Inr \<lparr>shape = [1, 2], elems = [6, 9]\<rparr>
   \<and> reparameterize (\<lambda>k. real k + 1) False
         \<lparr>shape = [1, 2], elems = [5, 7]\<rparr> \<lparr>shape = [1, 2], elems = [0, 0]\<rparr>
       = Inr \<lparr>shape = [1, 2], elems = [5, 7]\<rparr>"
proof -
  have h: "shape \<lparr>shape = [1, 2], elems = [0, 0]\<rparr> = shape \<lparr>shape = [1, 2], elems = [5, 7]\<rparr>"
    "wf_tensor \<lparr>shape = [1, 2], elems = [5, 7]\<rparr>"
    "wf_tensor \<lparr>shape = [1, 2], elems = [0, 0]\<rparr>"
    by (simp_all add: wf_tensor_def numel_def)
  have two: "[0..<2] = [0, Suc 0]"
    by (simp add: upt_conv_Cons)
  show ?thesis
    using h reparameterize_training_and_evaluation [OF h, of "\<lambda>k. real k + 1" "\<lambda>k. real k + 1"]
    by (simp add: Let_def numel_def two)
qed

text \<open>C4.  In \<open>loss_function\<close> and in \<open>loss_function_v2\<close> the component \<open>kl\<close> of the returned
  loss is, for every batch sample, the weight times the mean over the sample of
  \<open>-0.5 * (1 + logvar - mean\<^sup>2 - exp logvar)\<close>; it is zero throughout when all elements of
  mean and log-variance are zero.\<close>

theorem kl_component_weighted_mean:
  assumes "shape logvar = shape mu" "wf_tensor mu" "wf_tensor logvar"
    and "2 \<le> length (shape mu)" "0 < numel (drop 1 (shape mu))"
  shows "(loss_function F batch model_output (mu, logvar, c) x_input_name recon_loss_name w = Inr lo
            \<longrightarrow> losses lo ''kl'' = Some (weighted_kl_spec w mu logvar))
       \<and> (loss_function_v2 recon_loss_fn batch2 model_output2 (mu, logvar, c2) w = Inr lo2
            \<longrightarrow> losses lo2 ''kl'' = Some (weighted_kl_spec w mu logvar))
       \<and> ((\<forall>v\<in>set (elems mu). v = 0) \<and> (\<forall>v\<in>set (elems logvar). v = 0)
            \<longrightarrow> (\<forall>v\<in>set (elems (weighted_kl_spec w mu logvar)). v = 0))"
proof (intro conjI impI)
  assume "loss_function F batch model_output (mu, logvar, c) x_input_name recon_loss_name w = Inr lo"
  from loss_function_kl [OF this] obtain kl where "kullback_leibler mu logvar = Inr kl"
      "losses lo ''kl'' = Some (times_scalar kl w)"
    by blast
  then show "losses lo ''kl'' = Some (weighted_kl_spec w mu logvar)"
    using weighted_kl_spec_eq [OF assms(1-3)] by simp
next
  assume "loss_function_v2 recon_loss_fn batch2 model_output2 (mu, logvar, c2) w = Inr lo2"
  from loss_function_v2_kl [OF this] obtain kl where "kullback_leibler mu logvar = Inr kl"
      "losses lo2 ''kl'' = Some (times_scalar kl w)"
    by blast
  then show "losses lo2 ''kl'' = Some (weighted_kl_spec w mu logvar)"
    using weighted_kl_spec_eq [OF assms(1-3)] by simp
next
  assume z: "(\<forall>v\<in>set (elems mu). v = 0) \<and> (\<forall>v\<in>set (elems logvar). v = 0)"
  obtain n d ds where sh: "shape mu = n # d # ds"
    using assms(4) by (cases "shape mu"; cases "tl (shape mu)") auto
  have "kl_mean_spec mu logvar i = 0" if "i < n" for i
    using z assms(2,3,1) sh that by (intro kl_mean_spec_zero) blast+
  then show "\<forall>v\<in>set (elems (weighted_kl_spec w mu logvar)). v = 0"
    using sh by (auto simp add: weighted_kl_spec_def)
qed

theorem kl_component_weighted_mean_witness:
  "shape (zeros [2, 2]) = shape (zeros [2, 2]) \<and> wf_tensor (zeros [2, 2])
   \<and> 2 \<le> length (shape (zeros [2, 2])) \<and> 0 < numel (drop 1 (shape (zeros [2, 2])))
   \<and> (\<exists>lo. loss_function ex_functional [''images'' \<mapsto> ex_image] ex_image
               (zeros [2, 2], zeros [2, 2], [2, 1, 2 :: nat]) ''images'' ''MSE'' 0.2 = Inr lo
          \<and> losses lo ''kl'' = Some \<lparr>shape = [2], elems = [0, 0]\<rparr>)
   \<and> (\<exists>lo. loss_function_v2 ex_recon_loss_fn [''images'' \<mapsto> ex_image] ex_image
               (zeros [2, 2], zeros [2, 2], [2, 1, 2 :: nat]) 0.2 = Inr lo
          \<and> losses lo ''kl'' = Some \<lparr>shape = [2], elems = [0, 0]\<rparr>)
   \<and> elems (zeros [2, 2]) = [0, 0, 0, 0]
   \<and> elems (weighted_kl_spec 0.2 (zeros [2, 2]) (zeros [2, 2])) = [0, 0]"
proof -
  let ?z = "zeros [2, 2]"
  have h: "shape ?z = shape ?z" "wf_tensor ?z" "wf_tensor ?z" "2 \<le> length (shape ?z)"
      "0 < numel (drop 1 (shape ?z))"
    by (simp_all add: numel_def)
  have zero: "\<forall>v\<in>set (elems ?z). v = 0"
    by simp
  have kl: "kullback_leibler ?z ?z = Inr \<lparr>shape = [2], elems = map (kl_mean_spec ?z ?z) [0..<2]\<rparr>"
    by (rule kullback_leibler_rows [where d = 2 and ds = "[]"]) simp_all
  have spec: "weighted_kl_spec 0.2 ?z ?z = \<lparr>shape = [2], elems = [0, 0]\<rparr>"
    using kl_mean_spec_zero [OF zero zero, of 2 2 "[]" 0]
      kl_mean_spec_zero [OF zero zero, of 2 2 "[]" 1]
    by (simp add: weighted_kl_spec_def upt_conv_Cons)
  have r1: "\<exists>lo. loss_function ex_functional [''images'' \<mapsto> ex_image] ex_image
      (?z, ?z, [2, 1, 2 :: nat]) ''images'' ''MSE'' 0.2 = Inr lo"
    by (simp add: loss_function_def ex_functional_def call_def flatten1_def ex_image_def
        mean_dim1_def kl)
  have r2: "\<exists>lo. loss_function_v2 ex_recon_loss_fn [''images'' \<mapsto> ex_image] ex_image
      (?z, ?z, [2, 1, 2 :: nat]) 0.2 = Inr lo"
    by (simp add: loss_function_v2_def ex_recon_loss_fn_def call_def kl)
  from r1 obtain lo1 where l1: "loss_function ex_functional [''images'' \<mapsto> ex_image] ex_image
      (?z, ?z, [2, 1, 2 :: nat]) ''images'' ''MSE'' 0.2 = Inr lo1"
    by blast
  from r2 obtain lo2 where l2: "loss_function_v2 ex_recon_loss_fn [''images'' \<mapsto> ex_image]
      ex_image (?z, ?z, [2, 1, 2 :: nat]) 0.2 = Inr lo2"
    by blast
  note t = kl_component_weighted_mean [OF h, where w = "0.2" and lo = lo1 and ?lo2.0 = lo2
      and F = ex_functional and batch = "[''images'' \<mapsto> ex_image]" and model_output = ex_image
      and c = "[2, 1, 2 :: nat]" and x_input_name = "''images''" and recon_loss_name = "''MSE''"
      and recon_loss_fn = ex_recon_loss_fn and ?batch2.0 = "[''images'' \<mapsto> ex_image]"
      and ?model_output2.0 = ex_image and ?c2.0 = "[2, 1, 2 :: nat]"]
  have k1: "losses lo1 ''kl'' = Some \<lparr>shape = [2], elems = [0, 0]\<rparr>"
    using t l1 by (simp only: spec)
  have k2: "losses lo2 ''kl'' = Some \<lparr>shape = [2], elems = [0, 0]\<rparr>"
    using t l2 by (simp only: spec)
  have k3: "\<forall>v\<in>set (elems (weighted_kl_spec 0.2 ?z ?z)). v = 0"
    using t zero by blast
  have k4: "elems (weighted_kl_spec 0.2 ?z ?z) = [0, 0]"
    using k3 by (simp only: spec tensor.select_convs)
  have k5: "elems ?z = [0, 0, 0, 0]"
    by (simp add: numel_def numeral_eq_Suc)
  show ?thesis
    using h l1 l2 k1 k2 k4 k5 by blast
qed



text \<open>C6.  The conditioned wrapper fails by assertion when the keyword arguments hold no
  tensor under the conditioning name (no entry, or \<open>None\<close>), and when the conditioning
  tensor differs from \<open>x\<close> in the dimensions from index 2 on; otherwise its result is the
  base network applied to the concatenation of \<open>x\<close> and the conditioning tensor along
  dimension 1, and to \<open>t\<close>.  For tensors of equal batch size and spatial shape the
  concatenation puts, sample by sample, the channels of the conditioning tensor behind
  those of \<open>x\<close>.  The wrapper is a function of its arguments: it has no state to change.\<close>

theorem conditioned_forward_contract:
  "(kwargs (image_conditioning_name m) = None \<or> kwargs (image_conditioning_name m) = Some None
      \<longrightarrow> conditioned_forward m x t kwargs = Inl AssertionError)
   \<and> (kwargs (image_conditioning_name m) = Some (Some ic)
        \<and> drop 2 (shape ic) \<noteq> drop 2 (shape x)
      \<longrightarrow> conditioned_forward m x t kwargs = Inl AssertionError)
   \<and> (kwargs (image_conditioning_name m) = Some (Some ic)
        \<and> drop 2 (shape ic) = drop 2 (shape x)
      \<longrightarrow> conditioned_forward m x t kwargs =
            and_then (cat_dim1 x ic) (\<lambda>x_cond. call (base_model m x_cond t)))
   \<and> (kwargs (image_conditioning_name m) = Some (Some ic)
        \<and> shape x = n # cx # sp \<and> shape ic = n # cc # sp
      \<longrightarrow> conditioned_forward m x t kwargs =
            call (base_model m
              \<lparr>shape = n # (cx + cc) # sp,
               elems = concat (map2 (@) (rows n (cx * prod_list sp) (elems x))
                                        (rows n (cc * prod_list sp) (elems ic)))\<rparr> t))"
proof (intro conjI impI)
  assume "kwargs (image_conditioning_name m) = None \<or> kwargs (image_conditioning_name m) = Some None"
  then show "conditioned_forward m x t kwargs = Inl AssertionError"
    by (auto simp add: conditioned_forward_def dict_get_def)
next
  assume "kwargs (image_conditioning_name m) = Some (Some ic)
      \<and> drop 2 (shape ic) \<noteq> drop 2 (shape x)"
  then show "conditioned_forward m x t kwargs = Inl AssertionError"
    by (simp add: conditioned_forward_def dict_get_def)
next
  assume "kwargs (image_conditioning_name m) = Some (Some ic)
      \<and> drop 2 (shape ic) = drop 2 (shape x)"
  then show "conditioned_forward m x t kwargs =
      and_then (cat_dim1 x ic) (\<lambda>x_cond. call (base_model m x_cond t))"
    by (simp add: conditioned_forward_def dict_get_def)
next
  assume a: "kwargs (image_conditioning_name m) = Some (Some ic)
      \<and> shape x = n # cx # sp \<and> shape ic = n # cc # sp"
  then have "cat_dim1 x ic =
      Inr \<lparr>shape = n # (cx + cc) # sp,
           elems = concat (map2 (@) (rows n (cx * prod_list sp) (elems x))
                                    (rows n (cc * prod_list sp) (elems ic)))\<rparr>"
    by (simp add: cat_dim1_def cat_skip_def Let_def)
  then show "conditioned_forward m x t kwargs =
      call (base_model m
        \<lparr>shape = n # (cx + cc) # sp,
         elems = concat (map2 (@) (rows n (cx * prod_list sp) (elems x))
                                  (rows n (cc * prod_list sp) (elems ic)))\<rparr> t)"
    using a by (simp add: conditioned_forward_def dict_get_def)
qed

theorem conditioned_forward_contract_witness:
  "conditioned_forward ex_conditioned ex_noisy ex_t Map.empty = Inl AssertionError
   \<and> conditioned_forward ex_conditioned ex_noisy ex_t [''images'' \<mapsto> None] = Inl AssertionError
   \<and> conditioned_forward ex_conditioned ex_noisy ex_t [''images'' \<mapsto> Some ex_wide]
       = Inl AssertionError
   \<and> conditioned_forward ex_conditioned ex_noisy ex_t [''images'' \<mapsto> Some ex_image]
       = Inr \<lparr>shape = [2, 2, 2], elems = [7, 8, 3, 4, 9, 10, 5, 6]\<rparr>"
proof -
  have name: "image_conditioning_name ex_conditioned = ''images''"
    by (simp add: ex_conditioned_def)
  have a: "conditioned_forward ex_conditioned ex_noisy ex_t Map.empty = Inl AssertionError"
    using conditioned_forward_contract [of Map.empty ex_conditioned ex_noisy ex_t]
    by simp
  have b: "conditioned_forward ex_conditioned ex_noisy ex_t [''images'' \<mapsto> None]
      = Inl AssertionError"
    using conditioned_forward_contract [of "[''images'' \<mapsto> None]" ex_conditioned ex_noisy ex_t]
    by (simp add: name)
  have c: "conditioned_forward ex_conditioned ex_noisy ex_t [''images'' \<mapsto> Some ex_wide]
      = Inl AssertionError"
    using conditioned_forward_contract [of "[''images'' \<mapsto> Some ex_wide]" ex_conditioned
        ex_noisy ex_t ex_wide]
    by (simp add: name ex_wide_def ex_noisy_def)
  have pre: "[''images'' \<mapsto> Some ex_image] (image_conditioning_name ex_conditioned)
        = Some (Some ex_image)
      \<and> shape ex_noisy = 2 # 1 # [2] \<and> shape ex_image = 2 # 1 # [2]"
    by (simp add: name ex_noisy_def ex_image_def)
  have "conditioned_forward ex_conditioned ex_noisy ex_t [''images'' \<mapsto> Some ex_image] =
      call (base_model ex_conditioned
        \<lparr>shape = 2 # (1 + 1) # [2],
         elems = concat (map2 (@) (rows 2 (1 * prod_list [2]) (elems ex_noisy))
                                  (rows 2 (1 * prod_list [2]) (elems ex_image)))\<rparr> ex_t)"
    using pre conditioned_forward_contract [of "[''images'' \<mapsto> Some ex_image]" ex_conditioned
        ex_noisy ex_t ex_image 2 1 "[2]" 1]
    by blast
  also have "\<dots> = Inr \<lparr>shape = [2, 2, 2], elems = [7, 8, 3, 4, 9, 10, 5, 6]\<rparr>"
    by (simp add: ex_conditioned_def call_def rows_def ex_noisy_def ex_image_def upt_conv_Cons)
  finally have d: "conditioned_forward ex_conditioned ex_noisy ex_t
      [''images'' \<mapsto> Some ex_image] = Inr \<lparr>shape = [2, 2, 2], elems = [7, 8, 3, 4, 9, 10, 5, 6]\<rparr>" .
  from a b c d show ?thesis by blast
qed

text \<open>C7.  The claim is that \<open>encode\<close> followed by \<open>decode\<close> returns a tensor of the shape of
  the input.  \<open>decode\<close> returns what the decoder returns, without the padding or cropping
  to the input's shape that the docstring of \<open>__init__\<close> announces
  (\<open>decode_returns_decoder_output\<close>): on the example model an input of shape \<open>[1, 1, 3]\<close>
  comes back with shape \<open>[1, 1, 4]\<close>.\<close>

theorem encode_decode_changes_shape_on_example:
  "and_then (init ex_generator ex_x 3 ex_encoder ex_decoder 2) (\<lambda>m.
     and_then (encode (model_eval m) ex_x) (\<lambda>(mu, logvar, encoded_shape).
     and_then (decode (model_eval m) ex_generator mu logvar encoded_shape) (\<lambda>recon.
       Inr (shape recon, shape ex_x)))) = Inr ([1, 1, 4], [1, 1, 3])"
  by (simp only: init_ex_model and_then_Inr encode_ex_model case_prod_conv decode_ex_model
      tensor.select_convs shape_ex_x)

text \<open>C8.  When the supplied reconstruction loss returns a \<open>LossOutput\<close> and the KL term is
  defined, \<open>loss_function_v2\<close> returns that object with every component but \<open>kl\<close> as the
  supplied function left it (no flattening, no reduction), with \<open>kl\<close> set to the weighted
  KL term, and with everything else the object holds unchanged.\<close>

theorem loss_function_v2_keeps_components:
  assumes "recon_loss_fn batch model_output = Some (IsLossOutput lo)"
    and "kullback_leibler mu logvar = Inr kl"
  shows "\<exists>r. loss_function_v2 recon_loss_fn batch model_output (mu, logvar, c) w = Inr r
           \<and> (\<forall>name. name \<noteq> ''kl'' \<longrightarrow> losses r name = losses lo name)
           \<and> losses r ''kl'' = Some (times_scalar kl w)
           \<and> LossOutput.more r = LossOutput.more lo"
  using assms by (simp add: loss_function_v2_def call_def)

theorem loss_function_v2_keeps_components_witness:
  "ex_recon_loss_fn Map.empty ex_image
     = Some (IsLossOutput \<lparr>losses = [''l1'' \<mapsto> ex_image, ''kl'' \<mapsto> ex_image]\<rparr>)
   \<and> kullback_leibler (zeros [2, 2]) (zeros [2, 2]) = Inr \<lparr>shape = [2], elems = [0, 0]\<rparr>
   \<and> (\<exists>r. loss_function_v2 ex_recon_loss_fn Map.empty ex_image
               (zeros [2, 2], zeros [2, 2], [2, 1, 2 :: nat]) 0.2 = Inr r
          \<and> losses r ''l1'' = Some ex_image
          \<and> losses r ''kl'' = Some \<lparr>shape = [2], elems = [0, 0]\<rparr>)"
proof -
  have h: "ex_recon_loss_fn Map.empty ex_image
     = Some (IsLossOutput \<lparr>losses = [''l1'' \<mapsto> ex_image, ''kl'' \<mapsto> ex_image]\<rparr>)"
    by (simp add: ex_recon_loss_fn_def)
  have ts: "times_scalar \<lparr>shape = [2], elems = [0, 0]\<rparr> 0.2 = \<lparr>shape = [2], elems = [0, 0]\<rparr>"
    by (simp add: times_scalar_def pointwise_def)
  obtain r where r: "loss_function_v2 ex_recon_loss_fn Map.empty ex_image
        (zeros [2, 2], zeros [2, 2], [2, 1, 2 :: nat]) 0.2 = Inr r"
      "\<forall>name. name \<noteq> ''kl'' \<longrightarrow>
         losses r name = losses \<lparr>losses = [''l1'' \<mapsto> ex_image, ''kl'' \<mapsto> ex_image]\<rparr> name"
      "losses r ''kl'' = Some (times_scalar \<lparr>shape = [2], elems = [0, 0]\<rparr> 0.2)"
    using loss_function_v2_keeps_components [where recon_loss_fn = ex_recon_loss_fn
        and batch = Map.empty and model_output = ex_image and mu = "zeros [2, 2]"
        and logvar = "zeros [2, 2]" and c = "[2, 1, 2 :: nat]" and w = "0.2",
        OF h kullback_leibler_zeros]
    by blast
  have "losses r ''l1'' = Some ex_image"
    using r(2) by simp
  moreover have "losses r ''kl'' = Some \<lparr>shape = [2], elems = [0, 0]\<rparr>"
    using r(3) by (simp only: ts)
  ultimately show ?thesis
    using h kullback_leibler_zeros r(1) by blast
qed

text \<open>C9.  After a successful construction the input dimension of both projections is the
  product of the non-batch dimensions of the encoder's output on the dry-run input (a
  product below \<open>2\<^sup>6\<^sup>3\<close>, which the 64-bit product of numpy holds), the stored encoder
  output size is that product and the stored encoding shape is the shape of that output;
  and a call of any method leaves the model as it was.\<close>

theorem construction_fixes_projections:
  assumes "init g x cnn_dim0 enc dec z = Inr m"
    and "enc x = Some encoding"
    and "prod_list (drop 1 (shape encoding)) < 2 ^ 63"
  shows "in_features (z_mu m) = prod_list (drop 1 (shape encoding))
       \<and> in_features (z_logvar m) = prod_list (drop 1 (shape encoding))
       \<and> encoder_output_size m = NpInt (int (prod_list (drop 1 (shape encoding))))
       \<and> encoding_shape m = shape encoding
       \<and> snd (invoke m g' c) = m"
proof -
  let ?p = "prod_list (drop 1 (shape encoding))"
  have w: "wrap_int64 (int ?p) = int ?p"
    using assms(3) by (intro wrap_int64_small) simp_all
  show ?thesis
  proof (cases "drop 1 (shape encoding) = []")
    case True
    then have "init g x cnn_dim0 enc dec z = Inl TypeError"
      using assms(2) by (simp add: init_def call_def np_prod_def nn_Linear_def)
    then show ?thesis using assms(1) by simp
  next
    case False
    then have eos: "np_prod (drop 1 (shape encoding)) = NpInt (int ?p)"
      using w by (simp add: np_prod_def)
    show ?thesis
      using assms(1,2) eos
      by (auto simp add: init_def call_def nn_Linear_def invoke_self Let_def split: if_splits)
  qed
qed

theorem construction_fixes_projections_witness:
  "init ex_generator ex_x 3 ex_encoder ex_decoder 2 = Inr ex_model
   \<and> ex_encoder ex_x = Some \<lparr>shape = [1, 1, 2], elems = [1, 3]\<rparr>
   \<and> in_features (z_mu ex_model) = 2 \<and> in_features (z_logvar ex_model) = 2
   \<and> encoder_output_size ex_model = NpInt 2
   \<and> encoding_shape ex_model = [1, 1, 2]
   \<and> snd (invoke ex_model ex_generator (Call_sample 1)) = ex_model"
proof -
  have p: "prod_list (drop 1 (shape \<lparr>shape = [1, 1, 2], elems = [1, 3]\<rparr>)) < 2 ^ 63"
    by simp
  show ?thesis
    using init_ex_model ex_encoder_x
      construction_fixes_projections [OF init_ex_model ex_encoder_x p, of ex_generator "Call_sample 1"]
    by simp
qed

text \<open>C10.  \<open>decode\<close> reshapes the latent to the shape it is given as argument, whenever
  the numbers of elements agree, and hands the result to the decoder; the encoding
  shape stored in the model plays no part.\<close>

theorem decode_uses_the_shape_argument:
  assumes "reparameterize g (training m) mu logvar = Inr z"
    and "numel encoded_shape = numel (shape z)"
  shows "decode m g mu logvar encoded_shape = call (decoder m (z\<lparr>shape := encoded_shape\<rparr>))
       \<and> decode (m\<lparr>encoding_shape := stored\<rparr>) g mu logvar encoded_shape
           = decode m g mu logvar encoded_shape"
  using assms by (simp add: decode_def view_def)

theorem decode_uses_the_shape_argument_witness:
  "reparameterize ex_generator (training (model_eval ex_model)) ex_mu (zeros [2, 2]) = Inr ex_mu
   \<and> numel [2, 1, 2] = numel (shape ex_mu)
   \<and> encoding_shape (model_eval ex_model) = [1, 1, 2]
   \<and> decode (model_eval ex_model) ex_generator ex_mu (zeros [2, 2]) [2, 1, 2]
       = Inr \<lparr>shape = [2, 1, 4], elems = [3, 3, 4, 4, 5, 5, 6, 6]\<rparr>"
proof -
  have h: "reparameterize ex_generator (training (model_eval ex_model)) ex_mu (zeros [2, 2])
        = Inr ex_mu"
      "numel [2, 1, 2] = numel (shape ex_mu)"
    by (simp_all add: reparameterize_def model_eval_def ex_model_def numel_def ex_mu_def)
  have "decode (model_eval ex_model) ex_generator ex_mu (zeros [2, 2]) [2, 1, 2]
      = call (decoder (model_eval ex_model) (ex_mu\<lparr>shape := [2, 1, 2]\<rparr>))"
    using decode_uses_the_shape_argument [OF h] by blast
  also have "\<dots> = Inr \<lparr>shape = [2, 1, 4], elems = [3, 3, 4, 4, 5, 5, 6, 6]\<rparr>"
    by (simp add: model_eval_def ex_model_def ex_decoder_def ex_mu_def call_def)
  finally show ?thesis
    using h by (simp add: model_eval_def ex_model_def)
qed

end
